theory Spec2Isabelle
  imports Complex_Main
begin

section \<open>JavaScript values read by the PPE analysis service\<close>

text \<open>
  The service (\<^verbatim>\<open>server/services/ppeAnalysisService.js\<close>) is a JavaScript class.
  Its decision logic lives in three methods, \<^verbatim>\<open>analyzeCompliance\<close>,
  \<^verbatim>\<open>generateRecommendations\<close> and \<^verbatim>\<open>getPPERequirements\<close>, modelled below
  in the order of the source.

  The category names are a closed set of string literals in the source; they are
  modelled as an enumeration, with \<open>category_name\<close> giving back the literal.
\<close>

datatype category =
  person | head_protection | visibility | eye_protection | hand_protection | foot_protection

fun category_name :: "category \<Rightarrow> string" where
  "category_name person = ''person''"
| "category_name head_protection = ''head_protection''"
| "category_name visibility = ''visibility''"
| "category_name eye_protection = ''eye_protection''"
| "category_name hand_protection = ''hand_protection''"
| "category_name foot_protection = ''foot_protection''"

subsection \<open>Property reads on object literals\<close>

text \<open>
  \<^verbatim>\<open>obj[key]\<close> on an object literal finds the literal's own property, and otherwise
  walks the prototype chain: every object literal inherits the members of
  \<^verbatim>\<open>Object.prototype\<close>. Only a key found in neither place reads as
  \<^verbatim>\<open>undefined\<close>. An inherited member is a function (or, for \<^verbatim>\<open>__proto__\<close>, the
  prototype object): it is truthy and has no property of the literal's entries.
\<close>

datatype 'a js_prop = Own 'a | Inherited string | Undefined

definition Object_prototype :: "string list" where
  "Object_prototype =
     [''constructor'', ''__defineGetter__'', ''__defineSetter__'', ''hasOwnProperty'',
      ''__lookupGetter__'', ''__lookupSetter__'', ''isPrototypeOf'',
      ''propertyIsEnumerable'', ''toString'', ''valueOf'', ''__proto__'',
      ''toLocaleString'']"

definition js_get :: "(string \<times> 'a) list \<Rightarrow> string \<Rightarrow> 'a js_prop" where
  "js_get obj k =
     (case map_of obj k of
        Some v \<Rightarrow> Own v
      | None \<Rightarrow> if k \<in> set Object_prototype then Inherited k else Undefined)"

text \<open>Truthiness of a property read: objects, arrays and functions are truthy.\<close>

fun truthy :: "'a js_prop \<Rightarrow> bool" where
  "truthy (Own v) = True"
| "truthy (Inherited k) = True"
| "truthy Undefined = False"

text \<open>A missing property used as a key is the string \<^verbatim>\<open>"undefined"\<close>.\<close>

fun property_key :: "string option \<Rightarrow> string" where
  "property_key None = ''undefined''"
| "property_key (Some k) = k"

text \<open>
  \<^verbatim>\<open>x > 0.5\<close> on a number that may be missing: \<^verbatim>\<open>undefined > 0.5\<close> is false.
  Confidences are the rational values of the doubles; \<open>0.5\<close> is a double, so the
  comparison is exact.
\<close>

fun greater_than :: "rat option \<Rightarrow> rat \<Rightarrow> bool" where
  "greater_than None t = False"
| "greater_than (Some c) t = (t < c)"

text \<open>
  \<^verbatim>\<open>Math.round\<close> rounds to the nearest integer, halves towards \<open>+\<infinity>\<close>. The
  quotient is taken exactly here; for the list lengths of this service (2, 4 and 5
  required categories, at most 7 set members) the double computation of the source
  rounds to the same integer.
\<close>

definition Math_round :: "rat \<Rightarrow> int" where
  "Math_round x = \<lfloor>x + 1 / 2\<rfloor>"

text \<open>
  A JavaScript \<^verbatim>\<open>Set\<close> keeps its members in insertion order without duplicates:
  a distinct list. \<^verbatim>\<open>has\<close> is membership and \<^verbatim>\<open>size\<close> the length.
\<close>

definition Set_add :: "'a \<Rightarrow> 'a list \<Rightarrow> 'a list" where
  "Set_add x s = (if x \<in> set s then s else s @ [x])"

text \<open>\<^verbatim>\<open>str.replace(a, b)\<close> with a string pattern replaces the first occurrence only.\<close>

fun replace_first :: "char \<Rightarrow> char \<Rightarrow> string \<Rightarrow> string" where
  "replace_first a b [] = []"
| "replace_first a b (c # cs) = (if c = a then b # cs else c # replace_first a b cs)"

text \<open>A template literal prints \<^verbatim>\<open>undefined\<close> for a missing value.\<close>

fun template_text :: "string option \<Rightarrow> string" where
  "template_text None = ''undefined''"
| "template_text (Some s) = s"

section \<open>The service object\<close>

record ppe_item =
  required :: bool
  category :: category
  aliases :: "string list"

record service =
  ppeItems :: "(string \<times> ppe_item) list"
  requiredCategories :: "category list"

text \<open>The constructor. The entry for \<^verbatim>\<open>person\<close> has no aliases.\<close>

definition PPEAnalysisService :: service where
  "PPEAnalysisService =
     \<lparr>ppeItems =
        [(''person'', \<lparr>required = True, category = person, aliases = []\<rparr>),
         (''helmet'', \<lparr>required = True, category = head_protection,
            aliases = [''hard hat'', ''safety helmet'']\<rparr>),
         (''hard hat'', \<lparr>required = True, category = head_protection,
            aliases = [''helmet'', ''safety helmet'']\<rparr>),
         (''safety helmet'', \<lparr>required = True, category = head_protection,
            aliases = [''helmet'', ''hard hat'']\<rparr>),
         (''safety vest'', \<lparr>required = True, category = visibility,
            aliases = [''reflective vest'', ''hi-vis vest'']\<rparr>),
         (''reflective vest'', \<lparr>required = True, category = visibility,
            aliases = [''safety vest'', ''hi-vis vest'']\<rparr>),
         (''hi-vis vest'', \<lparr>required = True, category = visibility,
            aliases = [''safety vest'', ''reflective vest'']\<rparr>),
         (''safety glasses'', \<lparr>required = True, category = eye_protection,
            aliases = [''protective eyewear'', ''goggles'']\<rparr>),
         (''goggles'', \<lparr>required = True, category = eye_protection,
            aliases = [''safety glasses'', ''protective eyewear'']\<rparr>),
         (''protective eyewear'', \<lparr>required = True, category = eye_protection,
            aliases = [''safety glasses'', ''goggles'']\<rparr>),
         (''gloves'', \<lparr>required = True, category = hand_protection,
            aliases = [''safety gloves'', ''work gloves'']\<rparr>),
         (''safety gloves'', \<lparr>required = True, category = hand_protection,
            aliases = [''gloves'', ''work gloves'']\<rparr>),
         (''work gloves'', \<lparr>required = True, category = hand_protection,
            aliases = [''gloves'', ''safety gloves'']\<rparr>),
         (''boots'', \<lparr>required = True, category = foot_protection,
            aliases = [''safety boots'', ''work boots'']\<rparr>),
         (''safety boots'', \<lparr>required = True, category = foot_protection,
            aliases = [''boots'', ''work boots'']\<rparr>),
         (''work boots'', \<lparr>required = True, category = foot_protection,
            aliases = [''boots'', ''safety boots'']\<rparr>)],
      requiredCategories =
        [head_protection, visibility, eye_protection, hand_protection, foot_protection]\<rparr>"

section \<open>analyzeCompliance\<close>

text \<open>
  A detection is an object with the properties \<^verbatim>\<open>class\<close>, \<^verbatim>\<open>confidence\<close> and
  \<^verbatim>\<open>bbox\<close> (the field \<open>cls\<close> is \<^verbatim>\<open>class\<close>, a reserved word here). A property
  that is missing reads as \<^verbatim>\<open>undefined\<close>: \<open>None\<close>. The objects of the mock detector
  also carry a \<^verbatim>\<open>category\<close>, which the method never reads.
\<close>

record detection =
  cls :: "string option"
  confidence :: "rat option"
  bbox :: "rat list"

text \<open>
  The objects pushed on \<^verbatim>\<open>detectedItems\<close>. The category is that of the catalog
  entry, or \<^verbatim>\<open>undefined\<close> (\<open>None\<close>) when the entry was an inherited member.
\<close>

record detected_item =
  item :: "string option"
  item_category :: "category option"
  item_confidence :: "rat option"
  item_bbox :: "rat list"

text \<open>The three locals the loop updates.\<close>

record locals =
  loc_detectedCategories :: "category option list"
  loc_detectedItems :: "detected_item list"
  loc_personDetected :: bool

record compliance =
  personDetected :: bool
  complianceScore :: int
  isCompliant :: bool
  detectedCategories :: "category option list"
  missingCategories :: "category list"
  detectedItems :: "detected_item list"
  totalRequired :: nat
  totalDetected :: nat

text \<open>\<^verbatim>\<open>item.category\<close> of a truthy property read.\<close>

fun category_of :: "ppe_item js_prop \<Rightarrow> category option" where
  "category_of (Own v) = Some (category v)"
| "category_of (Inherited k) = None"
| "category_of Undefined = None"

text \<open>The body of the \<^verbatim>\<open>forEach\<close> callback, for a detection that is an object.\<close>

definition processDetection :: "service \<Rightarrow> locals \<Rightarrow> detection \<Rightarrow> locals" where
  "processDetection this st detection =
     (let st1 = (if cls detection = Some ''person''
                 then st\<lparr>loc_personDetected := True\<rparr> else st);
          entry = js_get (ppeItems this) (property_key (cls detection))
      in if truthy entry \<and> greater_than (confidence detection) (1 / 2)
         then st1\<lparr>loc_detectedCategories :=
                    Set_add (category_of entry) (loc_detectedCategories st1),
                  loc_detectedItems :=
                    loc_detectedItems st1 @
                      [\<lparr>item = cls detection, item_category = category_of entry,
                        item_confidence = confidence detection,
                        item_bbox = bbox detection\<rparr>]\<rparr>
         else st1)"

text \<open>
  The loop. An array element that is \<^verbatim>\<open>null\<close> or \<^verbatim>\<open>undefined\<close> (\<open>None\<close>) makes
  \<^verbatim>\<open>detection.class\<close> throw a TypeError, which leaves the method without a report.
\<close>

datatype js_error = TypeError

fun forEach_detection :: "service \<Rightarrow> detection option list \<Rightarrow> locals \<Rightarrow> js_error + locals" where
  "forEach_detection this [] st = Inr st"
| "forEach_detection this (None # ds) st = Inl TypeError"
| "forEach_detection this (Some d # ds) st = forEach_detection this ds (processDetection this st d)"

text \<open>The part of the method after the loop.\<close>

definition checkCompliance :: "service \<Rightarrow> locals \<Rightarrow> compliance" where
  "checkCompliance this st =
     (let missing = filter (\<lambda>category. Some category \<notin> set (loc_detectedCategories st))
                      (requiredCategories this);
          score = (if length (requiredCategories this) > 0
                   then (of_nat (length (loc_detectedCategories st)) /
                         of_nat (length (requiredCategories this))) * 100
                   else 0);
          compliant = (length missing = 0 \<and> loc_personDetected st)
      in \<lparr>personDetected = loc_personDetected st,
          complianceScore = Math_round score,
          isCompliant = compliant,
          detectedCategories = loc_detectedCategories st,
          missingCategories = missing,
          detectedItems = loc_detectedItems st,
          totalRequired = length (requiredCategories this),
          totalDetected = length (loc_detectedCategories st)\<rparr>)"

text \<open>The locals as the method declares them: an empty set, an empty array, false.\<close>

definition initial_locals :: locals where
  "initial_locals =
     \<lparr>loc_detectedCategories = [], loc_detectedItems = [], loc_personDetected = False\<rparr>"

definition analyzeCompliance :: "service \<Rightarrow> detection option list \<Rightarrow> js_error + compliance" where
  "analyzeCompliance this detections =
     (case forEach_detection this detections initial_locals of
        Inl e \<Rightarrow> Inl e
      | Inr st \<Rightarrow> Inr (checkCompliance this st))"

section \<open>generateRecommendations\<close>

datatype recommendation_type = error | warning | success | info

datatype recommendation_priority = high | medium | low

record recommendation =
  type :: recommendation_type
  message :: string
  priority :: recommendation_priority

text \<open>
  The message table of the source is keyed by the five equipment categories;
  \<^verbatim>\<open>person\<close> has no entry (and is no member of the prototype), so it reads as
  \<^verbatim>\<open>undefined\<close>.
\<close>

fun categoryMessages :: "category \<Rightarrow> string option" where
  "categoryMessages head_protection = Some ''Wear a safety helmet or hard hat''"
| "categoryMessages visibility = Some ''Wear a high-visibility safety vest''"
| "categoryMessages eye_protection = Some ''Wear safety glasses or protective eyewear''"
| "categoryMessages hand_protection = Some ''Wear safety gloves''"
| "categoryMessages foot_protection = Some ''Wear safety boots or work boots''"
| "categoryMessages person = None"

definition missing_warning :: "category \<Rightarrow> recommendation" where
  "missing_warning c =
     \<lparr>type = warning,
      message = ''Missing '' @ replace_first CHR ''_'' CHR '' '' (category_name c) @ '': '' @
                template_text (categoryMessages c),
      priority = high\<rparr>"

definition generateRecommendations :: "compliance \<Rightarrow> recommendation list" where
  "generateRecommendations compliance =
     (let recommendations = [];
          recommendations =
            (if \<not> personDetected compliance
             then recommendations @
               [\<lparr>type = error,
                 message = ''No person detected in the image. Please ensure the image contains a person for PPE analysis.'',
                 priority = high\<rparr>]
             else recommendations);
          recommendations =
            (if length (missingCategories compliance) > 0
             then foldl (\<lambda>rs c. rs @ [missing_warning c]) recommendations
                    (missingCategories compliance)
             else recommendations);
          recommendations =
            (if isCompliant compliance
             then recommendations @
               [\<lparr>type = success,
                 message = ''Great! All required PPE items are detected and properly worn.'',
                 priority = low\<rparr>]
             else recommendations)
      in recommendations @
           [\<lparr>type = info,
             message = ''Always ensure PPE is properly fitted and in good condition before starting work.'',
             priority = medium\<rparr>])"

section \<open>getPPERequirements\<close>

definition requirements :: "(string \<times> category list) list" where
  "requirements =
     [(''construction'',
         [head_protection, visibility, eye_protection, hand_protection, foot_protection]),
      (''manufacturing'', [head_protection, eye_protection, hand_protection, foot_protection]),
      (''laboratory'', [eye_protection, hand_protection]),
      (''healthcare'', [hand_protection, eye_protection]),
      (''general'',
         [head_protection, visibility, eye_protection, hand_protection, foot_protection])]"

text \<open>
  The parameter defaults to \<^verbatim>\<open>'construction'\<close> when the argument is absent
  (\<open>None\<close>). The result is \<^verbatim>\<open>requirements[workEnvironment] || requirements.general\<close>:
  the first read when it is truthy, which an inherited member is too.
\<close>

definition getPPERequirements :: "string option \<Rightarrow> category list js_prop" where
  "getPPERequirements workEnvironment =
     (let name = (case workEnvironment of None \<Rightarrow> ''construction'' | Some n \<Rightarrow> n);
          found = js_get requirements name
      in if truthy found then found else js_get requirements ''general'')"

section \<open>The loop over the detections\<close>

text \<open>
  Over an array of objects the loop is a left fold of the callback, and the method
  returns a report. A \<^verbatim>\<open>null\<close> or \<^verbatim>\<open>undefined\<close> element ends it with the
  TypeError and no report.
\<close>

lemma forEach_detection_objects:
  "forEach_detection this (map Some ds) st = Inr (foldl (processDetection this) st ds)"
  by (induction ds arbitrary: st) simp_all

lemma analyzeCompliance_objects:
  "analyzeCompliance this (map Some ds) =
     Inr (checkCompliance this (foldl (processDetection this) initial_locals ds))"
  by (simp add: analyzeCompliance_def forEach_detection_objects)

lemma forEach_detection_null:
  "forEach_detection this (map Some ds @ None # rest) st = Inl TypeError"
  by (induction ds arbitrary: st) simp_all

lemma analyzeCompliance_null:
  "analyzeCompliance this (map Some ds @ None # rest) = Inl TypeError"
  by (simp add: analyzeCompliance_def forEach_detection_null)

text \<open>
  What one detection adds to the three locals does not depend on what they held:
  items are appended, categories joined, the person flag or-ed.
\<close>

lemma processDetection_items:
  "loc_detectedItems (processDetection this st d) =
     loc_detectedItems st @ loc_detectedItems (processDetection this initial_locals d)"
  by (auto simp add: processDetection_def initial_locals_def Let_def)

lemma processDetection_categories:
  "set (loc_detectedCategories (processDetection this st d)) =
     set (loc_detectedCategories st) \<union>
     set (loc_detectedCategories (processDetection this initial_locals d))"
  by (auto simp add: processDetection_def initial_locals_def Let_def Set_add_def)

lemma processDetection_person:
  "loc_personDetected (processDetection this st d) =
     (loc_personDetected st \<or> loc_personDetected (processDetection this initial_locals d))"
  by (auto simp add: processDetection_def initial_locals_def Let_def)

lemma loop_items:
  "loc_detectedItems (foldl (processDetection this) st ds) =
     loc_detectedItems st @ loc_detectedItems (foldl (processDetection this) initial_locals ds)"
proof (induction ds rule: rev_induct)
  case Nil
  show ?case by (simp add: initial_locals_def)
next
  case (snoc d ds)
  show ?case
    using snoc.IH
      processDetection_items [of this "foldl (processDetection this) st ds" d]
      processDetection_items [of this "foldl (processDetection this) initial_locals ds" d]
    by simp
qed

lemma loop_categories:
  "set (loc_detectedCategories (foldl (processDetection this) st ds)) =
     set (loc_detectedCategories st) \<union>
     set (loc_detectedCategories (foldl (processDetection this) initial_locals ds))"
proof (induction ds rule: rev_induct)
  case Nil
  show ?case by (simp add: initial_locals_def)
next
  case (snoc d ds)
  show ?case
    using snoc.IH
      processDetection_categories [of this "foldl (processDetection this) st ds" d]
      processDetection_categories [of this "foldl (processDetection this) initial_locals ds" d]
    by auto
qed

lemma loop_person:
  "loc_personDetected (foldl (processDetection this) st ds) =
     (loc_personDetected st \<or>
      loc_personDetected (foldl (processDetection this) initial_locals ds))"
proof (induction ds rule: rev_induct)
  case Nil
  show ?case by (simp add: initial_locals_def)
next
  case (snoc d ds)
  show ?case
    using snoc.IH
      processDetection_person [of this "foldl (processDetection this) st ds" d]
      processDetection_person [of this "foldl (processDetection this) initial_locals ds" d]
    by auto
qed

lemma loop_split:
  "foldl (processDetection this) initial_locals (xs @ [d] @ ys) =
     foldl (processDetection this)
       (processDetection this (foldl (processDetection this) initial_locals xs) d) ys"
  by simp

lemma items_split:
  "loc_detectedItems (foldl (processDetection this) initial_locals (xs @ [d] @ ys)) =
     loc_detectedItems (foldl (processDetection this) initial_locals xs) @
     loc_detectedItems (processDetection this initial_locals d) @
     loc_detectedItems (foldl (processDetection this) initial_locals ys)"
  unfolding loop_split
  using loop_items [of this
      "processDetection this (foldl (processDetection this) initial_locals xs) d" ys]
    processDetection_items [of this "foldl (processDetection this) initial_locals xs" d]
  by simp

lemma categories_split:
  "set (loc_detectedCategories (foldl (processDetection this) initial_locals (xs @ [d] @ ys))) =
     set (loc_detectedCategories (foldl (processDetection this) initial_locals xs)) \<union>
     set (loc_detectedCategories (processDetection this initial_locals d)) \<union>
     set (loc_detectedCategories (foldl (processDetection this) initial_locals ys))"
  unfolding loop_split
  using loop_categories [of this
      "processDetection this (foldl (processDetection this) initial_locals xs) d" ys]
    processDetection_categories [of this "foldl (processDetection this) initial_locals xs" d]
  by simp

lemma person_split:
  "loc_personDetected (foldl (processDetection this) initial_locals (xs @ [d] @ ys)) =
     (loc_personDetected (foldl (processDetection this) initial_locals xs) \<or>
      loc_personDetected (processDetection this initial_locals d) \<or>
      loc_personDetected (foldl (processDetection this) initial_locals ys))"
  unfolding loop_split
  using loop_person [of this
      "processDetection this (foldl (processDetection this) initial_locals xs) d" ys]
    processDetection_person [of this "foldl (processDetection this) initial_locals xs" d]
  by simp

section \<open>The report\<close>

text \<open>
  The rounded score as an integer quotient: \<open>Math_round (n / m * 100)\<close> is
  \<open>(200 n + m) div (2 m)\<close>.
\<close>

lemma Math_round_ratio:
  assumes "0 < m"
  shows "Math_round ((of_nat n / of_nat m) * 100) = (200 * int n + int m) div (2 * int m)"
proof -
  have "(of_nat n / of_nat m) * 100 + 1 / 2 = (of_int (200 * int n + int m) :: rat) / of_int (2 * int m)"
    using assms by (simp add: field_simps)
  then show ?thesis
    unfolding Math_round_def by (simp only: floor_divide_of_int_eq)
qed

lemma Math_round_zero: "Math_round 0 = 0"
  unfolding Math_round_def by (rule floor_unique) simp_all

lemma checkCompliance_int:
  "checkCompliance this st =
     \<lparr>personDetected = loc_personDetected st,
      complianceScore =
        (if requiredCategories this = [] then 0
         else (200 * int (length (loc_detectedCategories st)) +
               int (length (requiredCategories this)))
              div (2 * int (length (requiredCategories this)))),
      isCompliant =
        (filter (\<lambda>c. Some c \<notin> set (loc_detectedCategories st)) (requiredCategories this) = []
         \<and> loc_personDetected st),
      detectedCategories = loc_detectedCategories st,
      missingCategories =
        filter (\<lambda>c. Some c \<notin> set (loc_detectedCategories st)) (requiredCategories this),
      detectedItems = loc_detectedItems st,
      totalRequired = length (requiredCategories this),
      totalDetected = length (loc_detectedCategories st)\<rparr>"
proof (cases "requiredCategories this = []")
  case True
  then show ?thesis
    by (simp add: checkCompliance_def Let_def Math_round_zero)
next
  case False
  then have "0 < length (requiredCategories this)" by simp
  from Math_round_ratio [OF this, of "length (loc_detectedCategories st)"] False
  show ?thesis
    by (simp add: checkCompliance_def Let_def)
qed

lemmas eval_simps = analyzeCompliance_def PPEAnalysisService_def processDetection_def js_get_def
  Set_add_def checkCompliance_int initial_locals_def Object_prototype_def Let_def

lemma analyzeCompliance_Inr:
  assumes "analyzeCompliance this detections = Inr r"
  shows "\<exists>st. r = checkCompliance this st"
  using assms by (auto simp add: analyzeCompliance_def split: sum.splits)

text \<open>
  The report for \<open>xs @ [d] @ ys\<close> is put together from the reports for \<open>xs\<close> and
  \<open>ys\<close> and from what the callback does with \<open>d\<close> alone.
\<close>

lemma analyzeCompliance_split:
  "\<exists>r rx ry.
     analyzeCompliance this (map Some (xs @ [d] @ ys)) = Inr r \<and>
     analyzeCompliance this (map Some xs) = Inr rx \<and>
     analyzeCompliance this (map Some ys) = Inr ry \<and>
     detectedItems r =
       detectedItems rx @ loc_detectedItems (processDetection this initial_locals d) @
       detectedItems ry \<and>
     set (detectedCategories r) =
       set (detectedCategories rx) \<union>
       set (loc_detectedCategories (processDetection this initial_locals d)) \<union>
       set (detectedCategories ry) \<and>
     personDetected r =
       (personDetected rx \<or> loc_personDetected (processDetection this initial_locals d) \<or>
        personDetected ry)"
  unfolding analyzeCompliance_objects
  using items_split [of this xs d ys] categories_split [of this xs d ys]
    person_split [of this xs d ys]
  by (simp add: checkCompliance_int)

lemma processDetection_known:
  assumes "map_of (ppeItems this) label = Some entry"
  shows "processDetection this initial_locals \<lparr>cls = Some label, confidence = Some c, bbox = b\<rparr> =
     \<lparr>loc_detectedCategories = (if 1 / 2 < c then [Some (category entry)] else []),
      loc_detectedItems =
        (if 1 / 2 < c
         then [\<lparr>item = Some label, item_category = Some (category entry),
                 item_confidence = Some c, item_bbox = b\<rparr>]
         else []),
      loc_personDetected = (label = ''person'')\<rparr>"
  using assms
  by (simp add: processDetection_def initial_locals_def js_get_def Set_add_def Let_def)

lemma processDetection_person_label:
  assumes "cls d = Some ''person''"
  shows "loc_personDetected (processDetection this initial_locals d)"
  using assms by (simp add: processDetection_def Let_def)

lemma processDetection_not_above:
  assumes "\<not> greater_than (confidence d) (1 / 2)"
  shows "loc_detectedItems (processDetection this initial_locals d) = [] \<and>
         loc_detectedCategories (processDetection this initial_locals d) = []"
  using assms by (simp add: processDetection_def initial_locals_def Let_def)

lemma analyzeCompliance_empty:
  "analyzeCompliance PPEAnalysisService [] =
     Inr \<lparr>personDetected = False, complianceScore = 0, isCompliant = False,
          detectedCategories = [],
          missingCategories =
            [head_protection, visibility, eye_protection, hand_protection, foot_protection],
          detectedItems = [], totalRequired = 5, totalDetected = 0\<rparr>"
  by (simp add: eval_simps)

lemma push_each:
  "foldl (\<lambda>rs c. rs @ [f c]) acc cs = acc @ map f cs"
  by (induction cs arbitrary: acc) simp_all

section \<open>Compliance verdict\<close>

text \<open>
  Claim C4. For every evaluation that returns a report, \<open>isCompliant\<close> is true if and
  only if \<open>personDetected\<close> is true and \<open>missingCategories\<close> is empty; in
  particular a report without a person is never compliant, whatever equipment was
  detected.
\<close>

theorem compliant_iff_person_and_nothing_missing:
  assumes "analyzeCompliance this detections = Inr r"
  shows "isCompliant r = (personDetected r \<and> missingCategories r = []) \<and>
         (\<not> personDetected r \<longrightarrow> \<not> isCompliant r)"
proof -
  from analyzeCompliance_Inr [OF assms] obtain st where "r = checkCompliance this st" ..
  then show ?thesis
    by (auto simp add: checkCompliance_int)
qed

text \<open>
  The theorem at the five equipment detections of the mock detector without the person:
  nothing is missing, and the report is not compliant.
\<close>

theorem compliant_iff_person_and_nothing_missing_witness:
  "(case analyzeCompliance PPEAnalysisService
      [Some \<lparr>cls = Some ''helmet'', confidence = Some (88 / 100), bbox = [120, 60, 80, 60]\<rparr>,
       Some \<lparr>cls = Some ''safety vest'', confidence = Some (92 / 100),
          bbox = [110, 120, 180, 120]\<rparr>,
       Some \<lparr>cls = Some ''gloves'', confidence = Some (75 / 100), bbox = [80, 350, 60, 40]\<rparr>,
       Some \<lparr>cls = Some ''safety glasses'', confidence = Some (82 / 100),
          bbox = [140, 100, 60, 20]\<rparr>,
       Some \<lparr>cls = Some ''boots'', confidence = Some (78 / 100), bbox = [130, 420, 80, 60]\<rparr>]
    of Inl e \<Rightarrow> False
     | Inr r \<Rightarrow> \<not> personDetected r \<and> missingCategories r = [] \<and> \<not> isCompliant r \<and>
         isCompliant r = (personDetected r \<and> missingCategories r = []))"
proof -
  let ?ds = "[Some \<lparr>cls = Some ''helmet'', confidence = Some (88 / 100), bbox = [120, 60, 80, 60]\<rparr>,
       Some \<lparr>cls = Some ''safety vest'', confidence = Some (92 / 100),
          bbox = [110, 120, 180, 120]\<rparr>,
       Some \<lparr>cls = Some ''gloves'', confidence = Some (75 / 100), bbox = [80, 350, 60, 40]\<rparr>,
       Some \<lparr>cls = Some ''safety glasses'', confidence = Some (82 / 100),
          bbox = [140, 100, 60, 20]\<rparr>,
       Some \<lparr>cls = Some ''boots'', confidence = Some (78 / 100), bbox = [130, 420, 80, 60]\<rparr>]"
  have "\<exists>r. analyzeCompliance PPEAnalysisService ?ds = Inr r \<and>
          \<not> personDetected r \<and> missingCategories r = []"
    by (simp add: eval_simps)
  then obtain r where run: "analyzeCompliance PPEAnalysisService ?ds = Inr r"
    and absent: "\<not> personDetected r" and none: "missingCategories r = []"
    by blast
  from compliant_iff_person_and_nothing_missing [OF run] absent none run
  show ?thesis by simp
qed

section \<open>The confidence test\<close>

text \<open>
  Claim C5. The confidence test is a strict greater-than against the threshold
  \<open>0.5\<close>: a detection whose label is a catalog entry is admitted, at its place among
  the detected items and with its category among the detected categories, if and only
  if its confidence is strictly greater than \<open>0.5\<close>; at exactly \<open>0.5\<close> it adds
  nothing.
\<close>

theorem admitted_iff_confidence_above_half:
  assumes "map_of (ppeItems this) label = Some entry"
  shows "\<exists>r rx ry.
     analyzeCompliance this
       (map Some (xs @ [\<lparr>cls = Some label, confidence = Some c, bbox = b\<rparr>] @ ys)) = Inr r \<and>
     analyzeCompliance this (map Some xs) = Inr rx \<and>
     analyzeCompliance this (map Some ys) = Inr ry \<and>
     detectedItems r =
       detectedItems rx @
       (if 1 / 2 < c
        then [\<lparr>item = Some label, item_category = Some (category entry),
                item_confidence = Some c, item_bbox = b\<rparr>]
        else []) @
       detectedItems ry \<and>
     set (detectedCategories r) =
       set (detectedCategories rx) \<union> (if 1 / 2 < c then {Some (category entry)} else {}) \<union>
       set (detectedCategories ry)"
  using analyzeCompliance_split [of this xs "\<lparr>cls = Some label, confidence = Some c, bbox = b\<rparr>" ys]
  unfolding processDetection_known [OF assms]
  by auto

text \<open>
  The theorem at a helmet of confidence exactly \<open>0.5\<close> (excluded) and of confidence
  \<open>0.51\<close> (admitted).
\<close>

theorem admitted_iff_confidence_above_half_witness:
  "map_of (ppeItems PPEAnalysisService) ''helmet'' =
     Some \<lparr>required = True, category = head_protection,
            aliases = [''hard hat'', ''safety helmet'']\<rparr> \<and>
   (case analyzeCompliance PPEAnalysisService
      [Some \<lparr>cls = Some ''helmet'', confidence = Some (1 / 2), bbox = [120, 60, 80, 60]\<rparr>]
    of Inl e \<Rightarrow> False
     | Inr r \<Rightarrow> detectedItems r = [] \<and> set (detectedCategories r) = {}) \<and>
   (case analyzeCompliance PPEAnalysisService
      [Some \<lparr>cls = Some ''helmet'', confidence = Some (51 / 100), bbox = [120, 60, 80, 60]\<rparr>]
    of Inl e \<Rightarrow> False
     | Inr r \<Rightarrow>
         detectedItems r =
           [\<lparr>item = Some ''helmet'', item_category = Some head_protection,
              item_confidence = Some (51 / 100), item_bbox = [120, 60, 80, 60]\<rparr>] \<and>
         set (detectedCategories r) = {Some head_protection})"
proof -
  have known: "map_of (ppeItems PPEAnalysisService) ''helmet'' =
     Some \<lparr>required = True, category = head_protection,
            aliases = [''hard hat'', ''safety helmet'']\<rparr>"
    by (simp add: PPEAnalysisService_def)
  let ?lo = "\<lparr>cls = Some ''helmet'', confidence = Some (1 / 2), bbox = [120, 60, 80, 60]\<rparr>"
  let ?hi = "\<lparr>cls = Some ''helmet'', confidence = Some (51 / 100), bbox = [120, 60, 80, 60]\<rparr>"
  have none: "detectedItems rx = [] \<and> detectedCategories rx = []"
    if "analyzeCompliance PPEAnalysisService (map Some []) = Inr rx" for rx
    using that by (auto simp add: analyzeCompliance_empty)
  from admitted_iff_confidence_above_half [OF known, of "[]" "1 / 2" "[120, 60, 80, 60]" "[]"]
  obtain r rx ry where
    "analyzeCompliance PPEAnalysisService (map Some ([] @ [?lo] @ [])) = Inr r" and
    "analyzeCompliance PPEAnalysisService (map Some []) = Inr rx" and
    "analyzeCompliance PPEAnalysisService (map Some []) = Inr ry" and
    "detectedItems r = detectedItems rx @ (if 1 / 2 < (1 / 2 :: rat) then
        [\<lparr>item = Some ''helmet'',
          item_category = Some (category \<lparr>required = True, category = head_protection,
            aliases = [''hard hat'', ''safety helmet'']\<rparr>),
          item_confidence = Some (1 / 2), item_bbox = [120, 60, 80, 60]\<rparr>] else []) @
        detectedItems ry" and
    "set (detectedCategories r) = set (detectedCategories rx) \<union>
       (if 1 / 2 < (1 / 2 :: rat) then {Some (category \<lparr>required = True,
          category = head_protection, aliases = [''hard hat'', ''safety helmet'']\<rparr>)} else {}) \<union>
       set (detectedCategories ry)"
    by blast
  then have lo: "analyzeCompliance PPEAnalysisService [Some ?lo] = Inr r \<and>
      detectedItems r = [] \<and> set (detectedCategories r) = {}"
    using none [of rx] none [of ry] by simp
  from admitted_iff_confidence_above_half [OF known, of "[]" "51 / 100" "[120, 60, 80, 60]" "[]"]
  obtain r' rx' ry' where
    "analyzeCompliance PPEAnalysisService (map Some ([] @ [?hi] @ [])) = Inr r'" and
    "analyzeCompliance PPEAnalysisService (map Some []) = Inr rx'" and
    "analyzeCompliance PPEAnalysisService (map Some []) = Inr ry'" and
    "detectedItems r' = detectedItems rx' @ (if 1 / 2 < (51 / 100 :: rat) then
        [\<lparr>item = Some ''helmet'',
          item_category = Some (category \<lparr>required = True, category = head_protection,
            aliases = [''hard hat'', ''safety helmet'']\<rparr>),
          item_confidence = Some (51 / 100), item_bbox = [120, 60, 80, 60]\<rparr>] else []) @
        detectedItems ry'" and
    "set (detectedCategories r') = set (detectedCategories rx') \<union>
       (if 1 / 2 < (51 / 100 :: rat) then {Some (category \<lparr>required = True,
          category = head_protection, aliases = [''hard hat'', ''safety helmet'']\<rparr>)} else {}) \<union>
       set (detectedCategories ry')"
    by blast
  then have hi: "analyzeCompliance PPEAnalysisService [Some ?hi] = Inr r' \<and>
      detectedItems r' =
        [\<lparr>item = Some ''helmet'', item_category = Some head_protection,
           item_confidence = Some (51 / 100), item_bbox = [120, 60, 80, 60]\<rparr>] \<and>
      set (detectedCategories r') = {Some head_protection}"
    using none [of rx'] none [of ry'] by simp
  show ?thesis using known lo hi by simp
qed

section \<open>Recommendations\<close>

text \<open>
  Claim C9. For every compliance report the recommendation list is, in this order:
  the error/high no-person message if and only if \<open>personDetected\<close> is false; one
  warning/high message for each missing category, in the order of
  \<open>missingCategories\<close>; the success/low message if and only if \<open>isCompliant\<close>; and
  last, always, the one info/medium reminder.
\<close>

theorem recommendations_structure:
  "generateRecommendations report =
     (if \<not> personDetected report
      then [\<lparr>type = error,
              message = ''No person detected in the image. Please ensure the image contains a person for PPE analysis.'',
              priority = high\<rparr>]
      else []) @
     map (\<lambda>c. \<lparr>type = warning,
                message = ''Missing '' @ replace_first CHR ''_'' CHR '' '' (category_name c) @
                          '': '' @ template_text (categoryMessages c),
                priority = high\<rparr>)
       (missingCategories report) @
     (if isCompliant report
      then [\<lparr>type = success,
              message = ''Great! All required PPE items are detected and properly worn.'',
              priority = low\<rparr>]
      else []) @
     [\<lparr>type = info,
       message = ''Always ensure PPE is properly fitted and in good condition before starting work.'',
       priority = medium\<rparr>]"
  by (simp add: generateRecommendations_def push_each missing_warning_def Let_def)

section \<open>Person presence\<close>

text \<open>
  Claim C10. The person flag ignores the confidence test: a detection of class
  \<^verbatim>\<open>person\<close> anywhere in the list sets \<open>personDetected\<close>, whatever its
  confidence; when that confidence is at most \<open>0.5\<close> the same detection adds no
  detected item and no category.
\<close>

theorem person_detected_below_threshold:
  assumes "cls d = Some ''person''"
  shows "\<exists>r rx ry.
     analyzeCompliance this (map Some (xs @ [d] @ ys)) = Inr r \<and>
     analyzeCompliance this (map Some xs) = Inr rx \<and>
     analyzeCompliance this (map Some ys) = Inr ry \<and>
     personDetected r \<and>
     (\<forall>c. confidence d = Some c \<and> c \<le> 1 / 2 \<longrightarrow>
        detectedItems r = detectedItems rx @ detectedItems ry \<and>
        set (detectedCategories r) = set (detectedCategories rx) \<union> set (detectedCategories ry))"
proof -
  have below: "loc_detectedItems (processDetection this initial_locals d) = [] \<and>
         loc_detectedCategories (processDetection this initial_locals d) = []"
    if "confidence d = Some c" and "c \<le> 1 / 2" for c
    using that by (intro processDetection_not_above) simp
  from analyzeCompliance_split [of this xs d ys] processDetection_person_label [OF assms, of this]
    below
  show ?thesis by fastforce
qed

text \<open>The theorem at a lone person detection of confidence \<open>0.3\<close>.\<close>

theorem person_detected_below_threshold_witness:
  "(case analyzeCompliance PPEAnalysisService
      [Some \<lparr>cls = Some ''person'', confidence = Some (3 / 10), bbox = [100, 50, 200, 400]\<rparr>]
    of Inl e \<Rightarrow> False
     | Inr r \<Rightarrow> personDetected r \<and> detectedItems r = [] \<and> detectedCategories r = [])"
proof -
  let ?d = "\<lparr>cls = Some ''person'', confidence = Some (3 / 10), bbox = [100, 50, 200, 400]\<rparr>"
  have label: "cls ?d = Some ''person''" by simp
  from person_detected_below_threshold [OF label, of PPEAnalysisService "[]" "[]"]
  obtain r rx ry where
    run: "analyzeCompliance PPEAnalysisService (map Some ([] @ [?d] @ [])) = Inr r" and
    rx: "analyzeCompliance PPEAnalysisService (map Some []) = Inr rx" and
    ry: "analyzeCompliance PPEAnalysisService (map Some []) = Inr ry" and
    seen: "personDetected r" and
    below: "\<forall>c. confidence ?d = Some c \<and> c \<le> 1 / 2 \<longrightarrow>
        detectedItems r = detectedItems rx @ detectedItems ry \<and>
        set (detectedCategories r) = set (detectedCategories rx) \<union> set (detectedCategories ry)"
    by blast
  have "detectedItems rx = []" "detectedCategories rx = []"
    using rx by (auto simp add: analyzeCompliance_empty)
  moreover have "detectedItems ry = []" "detectedCategories ry = []"
    using ry by (auto simp add: analyzeCompliance_empty)
  moreover have "confidence ?d = Some (3 / 10) \<and> (3 / 10 :: rat) \<le> 1 / 2" by simp
  ultimately have "detectedItems r = [] \<and> detectedCategories r = []"
    using below by (metis append_Nil set_empty2 sup_bot.right_neutral)
  moreover have "analyzeCompliance PPEAnalysisService [Some ?d] = Inr r"
    using run by simp
  ultimately show ?thesis using seen by simp
qed

section \<open>The score\<close>

text \<open>
  The score of a returned report is the rounded share of the size of the whole set of
  detected categories in the number of required categories, and 0 when none is
  required. The set holds every category the catalog gave, \<open>person\<close> included.
\<close>

lemma complianceScore_formula:
  assumes "analyzeCompliance this detections = Inr r"
  shows "complianceScore r =
     (if requiredCategories this = [] then 0
      else Math_round (of_nat (length (detectedCategories r)) /
                       of_nat (length (requiredCategories this)) * 100))"
proof -
  from analyzeCompliance_Inr [OF assms] obtain st where "r = checkCompliance this st" ..
  then show ?thesis
    by (simp add: checkCompliance_def Let_def Math_round_zero)
qed

text \<open>
  Claim C1. The score is to be \<open>round (100 * |detected \<inter> required| / |required|)\<close>,
  which for the construction scenario (person, helmet, safety vest, safety glasses and
  gloves, no boots) is 80. The method counts \<open>person\<close> among the detected
  categories: on these detections it reports foot protection missing and a score of 100.
\<close>

theorem construction_scenario_scores_100:
  "analyzeCompliance PPEAnalysisService
     [Some \<lparr>cls = Some ''person'', confidence = Some (95 / 100), bbox = [100, 50, 200, 400]\<rparr>,
      Some \<lparr>cls = Some ''helmet'', confidence = Some (88 / 100), bbox = [120, 60, 80, 60]\<rparr>,
      Some \<lparr>cls = Some ''safety vest'', confidence = Some (92 / 100),
         bbox = [110, 120, 180, 120]\<rparr>,
      Some \<lparr>cls = Some ''safety glasses'', confidence = Some (82 / 100),
         bbox = [140, 100, 60, 20]\<rparr>,
      Some \<lparr>cls = Some ''gloves'', confidence = Some (75 / 100), bbox = [80, 350, 60, 40]\<rparr>] =
   Inr \<lparr>personDetected = True, complianceScore = 100, isCompliant = False,
        detectedCategories =
          [Some person, Some head_protection, Some visibility, Some eye_protection,
           Some hand_protection],
        missingCategories = [foot_protection],
        detectedItems =
          [\<lparr>item = Some ''person'', item_category = Some person,
             item_confidence = Some (95 / 100), item_bbox = [100, 50, 200, 400]\<rparr>,
           \<lparr>item = Some ''helmet'', item_category = Some head_protection,
             item_confidence = Some (88 / 100), item_bbox = [120, 60, 80, 60]\<rparr>,
           \<lparr>item = Some ''safety vest'', item_category = Some visibility,
             item_confidence = Some (92 / 100), item_bbox = [110, 120, 180, 120]\<rparr>,
           \<lparr>item = Some ''safety glasses'', item_category = Some eye_protection,
             item_confidence = Some (82 / 100), item_bbox = [140, 100, 60, 20]\<rparr>,
           \<lparr>item = Some ''gloves'', item_category = Some hand_protection,
             item_confidence = Some (75 / 100), item_bbox = [80, 350, 60, 40]\<rparr>],
        totalRequired = 5, totalDetected = 5\<rparr>"
  by (simp add: eval_simps)

text \<open>
  Claim C3. The score is to lie between 0 and 100. On the six detections of the mock
  detector (all well-formed, all above the threshold) the set of detected categories
  has six members against five required ones, and the score is 120.
\<close>

theorem mock_detections_score_120:
  "analyzeCompliance PPEAnalysisService
     [Some \<lparr>cls = Some ''person'', confidence = Some (95 / 100), bbox = [100, 50, 200, 400]\<rparr>,
      Some \<lparr>cls = Some ''helmet'', confidence = Some (88 / 100), bbox = [120, 60, 80, 60]\<rparr>,
      Some \<lparr>cls = Some ''safety vest'', confidence = Some (92 / 100),
         bbox = [110, 120, 180, 120]\<rparr>,
      Some \<lparr>cls = Some ''gloves'', confidence = Some (75 / 100), bbox = [80, 350, 60, 40]\<rparr>,
      Some \<lparr>cls = Some ''safety glasses'', confidence = Some (82 / 100),
         bbox = [140, 100, 60, 20]\<rparr>,
      Some \<lparr>cls = Some ''boots'', confidence = Some (78 / 100), bbox = [130, 420, 80, 60]\<rparr>] =
   Inr \<lparr>personDetected = True, complianceScore = 120, isCompliant = True,
        detectedCategories =
          [Some person, Some head_protection, Some visibility, Some hand_protection,
           Some eye_protection, Some foot_protection],
        missingCategories = [],
        detectedItems =
          [\<lparr>item = Some ''person'', item_category = Some person,
             item_confidence = Some (95 / 100), item_bbox = [100, 50, 200, 400]\<rparr>,
           \<lparr>item = Some ''helmet'', item_category = Some head_protection,
             item_confidence = Some (88 / 100), item_bbox = [120, 60, 80, 60]\<rparr>,
           \<lparr>item = Some ''safety vest'', item_category = Some visibility,
             item_confidence = Some (92 / 100), item_bbox = [110, 120, 180, 120]\<rparr>,
           \<lparr>item = Some ''gloves'', item_category = Some hand_protection,
             item_confidence = Some (75 / 100), item_bbox = [80, 350, 60, 40]\<rparr>,
           \<lparr>item = Some ''safety glasses'', item_category = Some eye_protection,
             item_confidence = Some (82 / 100), item_bbox = [140, 100, 60, 20]\<rparr>,
           \<lparr>item = Some ''boots'', item_category = Some foot_protection,
             item_confidence = Some (78 / 100), item_bbox = [130, 420, 80, 60]\<rparr>],
        totalRequired = 5, totalDetected = 6\<rparr>"
  by (simp add: eval_simps)

section \<open>Work environments\<close>

text \<open>
  Claim C2. Evaluation is to use the required categories of the resolved profile, so
  that under \<^verbatim>\<open>laboratory\<close> a person with eye and hand protection scores 100 and is
  compliant. \<open>getPPERequirements\<close> does give eye and hand protection for
  \<^verbatim>\<open>laboratory\<close>, but \<open>analyzeCompliance\<close> takes no profile and reads the five
  categories the constructor set: the score is 60 and the report is not compliant.
\<close>

theorem laboratory_profile_is_not_applied:
  "getPPERequirements (Some ''laboratory'') = Own [eye_protection, hand_protection] \<and>
   analyzeCompliance PPEAnalysisService
     [Some \<lparr>cls = Some ''person'', confidence = Some (95 / 100), bbox = [100, 50, 200, 400]\<rparr>,
      Some \<lparr>cls = Some ''safety glasses'', confidence = Some (82 / 100),
         bbox = [140, 100, 60, 20]\<rparr>,
      Some \<lparr>cls = Some ''gloves'', confidence = Some (75 / 100), bbox = [80, 350, 60, 40]\<rparr>] =
   Inr \<lparr>personDetected = True, complianceScore = 60, isCompliant = False,
        detectedCategories = [Some person, Some eye_protection, Some hand_protection],
        missingCategories = [head_protection, visibility, foot_protection],
        detectedItems =
          [\<lparr>item = Some ''person'', item_category = Some person,
             item_confidence = Some (95 / 100), item_bbox = [100, 50, 200, 400]\<rparr>,
           \<lparr>item = Some ''safety glasses'', item_category = Some eye_protection,
             item_confidence = Some (82 / 100), item_bbox = [140, 100, 60, 20]\<rparr>,
           \<lparr>item = Some ''gloves'', item_category = Some hand_protection,
             item_confidence = Some (75 / 100), item_bbox = [80, 350, 60, 40]\<rparr>],
        totalRequired = 5, totalDetected = 3\<rparr>"
  by (simp add: eval_simps getPPERequirements_def requirements_def)

text \<open>
  Were the laboratory list installed as \<open>requiredCategories\<close>, the same detections
  would score 150, the person being counted as a detected category.
\<close>

lemma laboratory_requirements_installed:
  "analyzeCompliance (PPEAnalysisService\<lparr>requiredCategories := [eye_protection, hand_protection]\<rparr>)
     [Some \<lparr>cls = Some ''person'', confidence = Some (95 / 100), bbox = [100, 50, 200, 400]\<rparr>,
      Some \<lparr>cls = Some ''safety glasses'', confidence = Some (82 / 100),
         bbox = [140, 100, 60, 20]\<rparr>,
      Some \<lparr>cls = Some ''gloves'', confidence = Some (75 / 100), bbox = [80, 350, 60, 40]\<rparr>] =
   Inr \<lparr>personDetected = True, complianceScore = 150, isCompliant = True,
        detectedCategories = [Some person, Some eye_protection, Some hand_protection],
        missingCategories = [],
        detectedItems =
          [\<lparr>item = Some ''person'', item_category = Some person,
             item_confidence = Some (95 / 100), item_bbox = [100, 50, 200, 400]\<rparr>,
           \<lparr>item = Some ''safety glasses'', item_category = Some eye_protection,
             item_confidence = Some (82 / 100), item_bbox = [140, 100, 60, 20]\<rparr>,
           \<lparr>item = Some ''gloves'', item_category = Some hand_protection,
             item_confidence = Some (75 / 100), item_bbox = [80, 350, 60, 40]\<rparr>],
        totalRequired = 2, totalDetected = 3\<rparr>"
  by (simp add: eval_simps)

text \<open>
  A name that is neither one of the five environments nor a member of
  \<^verbatim>\<open>Object.prototype\<close> falls back to the list of \<^verbatim>\<open>general\<close>, and so does an
  absent argument (through \<^verbatim>\<open>construction\<close>, whose list is the same).
\<close>

lemma getPPERequirements_fallback:
  assumes "name \<notin> set [''construction'', ''manufacturing'', ''laboratory'', ''healthcare'', ''general'']"
    and "name \<notin> set Object_prototype"
  shows "getPPERequirements (Some name) = getPPERequirements (Some ''general'')"
  using assms by (simp add: getPPERequirements_def js_get_def requirements_def)

lemma getPPERequirements_not_a_real_profile:
  "getPPERequirements (Some ''not-a-real-profile'') = getPPERequirements (Some ''general'') \<and>
   getPPERequirements (Some ''general'') =
     Own [head_protection, visibility, eye_protection, hand_protection, foot_protection]"
  by (simp add: getPPERequirements_def js_get_def requirements_def Object_prototype_def)

lemma getPPERequirements_absent:
  "getPPERequirements None = getPPERequirements (Some ''construction'')"
  by (simp add: getPPERequirements_def)

text \<open>
  Claim C7. Every name other than the five environments is to resolve to the list of
  \<^verbatim>\<open>general\<close>. For the name \<^verbatim>\<open>constructor\<close> the read
  \<^verbatim>\<open>requirements[workEnvironment]\<close> finds the member inherited from
  \<^verbatim>\<open>Object.prototype\<close>, which is truthy, and the method returns it instead of the
  list of \<^verbatim>\<open>general\<close>.
\<close>

theorem inherited_name_is_not_general:
  "getPPERequirements (Some ''constructor'') = Inherited ''constructor'' \<and>
   getPPERequirements (Some ''general'') =
     Own [head_protection, visibility, eye_protection, hand_protection, foot_protection] \<and>
   getPPERequirements (Some ''constructor'') \<noteq> getPPERequirements (Some ''general'')"
  by (simp add: getPPERequirements_def js_get_def requirements_def Object_prototype_def)

section \<open>Labels without a catalog entry\<close>

text \<open>
  A detection whose label reads as \<^verbatim>\<open>undefined\<close> in the catalog (no entry of its
  own, no inherited member) changes neither the detected categories, nor the score,
  nor the missing categories, nor the detected items, wherever it stands in the list.
\<close>

lemma processDetection_person_update:
  "processDetection this (st\<lparr>loc_personDetected := True\<rparr>) d =
     (processDetection this st d)\<lparr>loc_personDetected := True\<rparr>"
  by (auto simp add: processDetection_def Let_def)

lemma loop_person_update:
  "foldl (processDetection this) (st\<lparr>loc_personDetected := True\<rparr>) ds =
     (foldl (processDetection this) st ds)\<lparr>loc_personDetected := True\<rparr>"
  by (induction ds arbitrary: st) (simp_all add: processDetection_person_update)

lemma processDetection_unknown:
  assumes "js_get (ppeItems this) (property_key (cls d)) = Undefined"
  shows "processDetection this st d =
     (if cls d = Some ''person'' then st\<lparr>loc_personDetected := True\<rparr> else st)"
  using assms by (auto simp add: processDetection_def Let_def)

lemma unknown_label_ignored:
  assumes "js_get (ppeItems this) (property_key (cls d)) = Undefined"
  shows "\<exists>r r'.
     analyzeCompliance this (map Some (xs @ [d] @ ys)) = Inr r \<and>
     analyzeCompliance this (map Some (xs @ ys)) = Inr r' \<and>
     detectedCategories r = detectedCategories r' \<and>
     complianceScore r = complianceScore r' \<and>
     missingCategories r = missingCategories r' \<and>
     detectedItems r = detectedItems r'"
  unfolding analyzeCompliance_objects
  by (simp add: processDetection_unknown [OF assms] loop_person_update checkCompliance_int)

text \<open>
  Claim C6. A detection whose label has no catalog entry is to leave the detected
  categories, the score and the missing categories unchanged. The label
  \<^verbatim>\<open>toString\<close> has no entry, but \<^verbatim>\<open>this.ppeItems[detection.class]\<close> finds the
  member inherited from \<^verbatim>\<open>Object.prototype\<close>: with a confidence above 0.5 the
  detection is admitted with the category \<^verbatim>\<open>undefined\<close>, and the score of the
  empty list, 0, becomes 20.
\<close>

theorem inherited_label_changes_score:
  "analyzeCompliance PPEAnalysisService
     [Some \<lparr>cls = Some ''toString'', confidence = Some (9 / 10), bbox = [0, 0, 10, 10]\<rparr>] =
   Inr \<lparr>personDetected = False, complianceScore = 20, isCompliant = False,
        detectedCategories = [None],
        missingCategories =
          [head_protection, visibility, eye_protection, hand_protection, foot_protection],
        detectedItems =
          [\<lparr>item = Some ''toString'', item_category = None,
             item_confidence = Some (9 / 10), item_bbox = [0, 0, 10, 10]\<rparr>],
        totalRequired = 5, totalDetected = 1\<rparr> \<and>
   analyzeCompliance PPEAnalysisService [] =
   Inr \<lparr>personDetected = False, complianceScore = 0, isCompliant = False,
        detectedCategories = [],
        missingCategories =
          [head_protection, visibility, eye_protection, hand_protection, foot_protection],
        detectedItems = [], totalRequired = 5, totalDetected = 0\<rparr> \<and>
   map_of (ppeItems PPEAnalysisService) ''toString'' = None"
  by (simp add: eval_simps)

section \<open>Detections with missing or out-of-range properties\<close>

lemma processDetection_no_label:
  assumes "cls d = None" and "js_get (ppeItems this) ''undefined'' = Undefined"
  shows "processDetection this initial_locals d = initial_locals"
  using assms by (simp add: processDetection_def Let_def)

text \<open>
  Claim C8 says that a detection without label or confidence, or with a confidence
  outside \<open>[0, 1]\<close>, makes the call fail with a MalformedDetection error. The method
  has no such check: the list below holds a detection without label, one without
  confidence, one of confidence 1.5 and one of confidence -1, and the call returns a
  report, in which the gloves of confidence 1.5 are admitted.
\<close>

theorem malformed_detection_counterexample:
  "analyzeCompliance PPEAnalysisService
     [Some \<lparr>cls = None, confidence = Some (9 / 10), bbox = [120, 60, 80, 60]\<rparr>,
      Some \<lparr>cls = Some ''helmet'', confidence = None, bbox = [120, 60, 80, 60]\<rparr>,
      Some \<lparr>cls = Some ''gloves'', confidence = Some (3 / 2), bbox = [80, 350, 60, 40]\<rparr>,
      Some \<lparr>cls = Some ''boots'', confidence = Some (- 1), bbox = [130, 420, 80, 60]\<rparr>] =
   Inr \<lparr>personDetected = False, complianceScore = 20, isCompliant = False,
        detectedCategories = [Some hand_protection],
        missingCategories = [head_protection, visibility, eye_protection, foot_protection],
        detectedItems =
          [\<lparr>item = Some ''gloves'', item_category = Some hand_protection,
             item_confidence = Some (3 / 2), item_bbox = [80, 350, 60, 40]\<rparr>],
        totalRequired = 5, totalDetected = 1\<rparr>"
  by (simp add: eval_simps)

text \<open>
  Claim C8 as amended. For every array of detection objects the call returns a complete
  report, also when a detection \<open>d\<close> in it lacks its label or its confidence or has a
  confidence outside \<open>[0, 1]\<close>. A detection without confidence, or with a negative
  one, or without label (the catalog having no entry \<^verbatim>\<open>undefined\<close>) adds no item
  and no category. Whatever its confidence, a detection sets \<open>personDetected\<close>
  exactly when its label is \<^verbatim>\<open>person\<close>: one labelled \<^verbatim>\<open>person\<close> without
  confidence or with a negative one still sets the flag, and one without label never
  does. A detection with a catalog label and a confidence above 1 is admitted with that
  confidence. The call is atomic: its only failure is the TypeError of a
  \<^verbatim>\<open>null\<close> or \<^verbatim>\<open>undefined\<close> array element, which leaves no report.
\<close>

theorem malformed_detections_return_a_report:
  "(\<exists>r rx ry.
      analyzeCompliance this (map Some (xs @ [d] @ ys)) = Inr r \<and>
      analyzeCompliance this (map Some xs) = Inr rx \<and>
      analyzeCompliance this (map Some ys) = Inr ry \<and>
      ((confidence d = None \<or> (\<exists>c. confidence d = Some c \<and> c < 0) \<or>
        (cls d = None \<and> js_get (ppeItems this) ''undefined'' = Undefined)) \<longrightarrow>
         detectedItems r = detectedItems rx @ detectedItems ry \<and>
         set (detectedCategories r) =
           set (detectedCategories rx) \<union> set (detectedCategories ry)) \<and>
      personDetected r =
        (personDetected rx \<or> cls d = Some ''person'' \<or> personDetected ry) \<and>
      (\<forall>label entry c.
         cls d = Some label \<and> map_of (ppeItems this) label = Some entry \<and>
         confidence d = Some c \<and> 1 < c \<longrightarrow>
         detectedItems r =
           detectedItems rx @
           [\<lparr>item = Some label, item_category = Some (category entry),
              item_confidence = Some c, item_bbox = bbox d\<rparr>] @
           detectedItems ry)) \<and>
   analyzeCompliance this (map Some xs @ None # rest) = Inl TypeError"
proof -
  have skipped: "loc_detectedItems (processDetection this initial_locals d) = [] \<and>
      loc_detectedCategories (processDetection this initial_locals d) = []"
    if "confidence d = None \<or> (\<exists>c. confidence d = Some c \<and> c < 0) \<or>
        (cls d = None \<and> js_get (ppeItems this) ''undefined'' = Undefined)"
  proof -
    from that consider "\<not> greater_than (confidence d) (1 / 2)"
      | "cls d = None" and "js_get (ppeItems this) ''undefined'' = Undefined"
      by fastforce
    then show ?thesis
    proof cases
      case 1
      then show ?thesis by (rule processDetection_not_above)
    next
      case 2
      from processDetection_no_label [OF 2] show ?thesis
        by (simp add: initial_locals_def)
    qed
  qed
  have flag: "loc_personDetected (processDetection this initial_locals d) =
      (cls d = Some ''person'')"
    by (simp add: processDetection_def initial_locals_def Let_def)
  have admitted: "loc_detectedItems (processDetection this initial_locals d) =
      [\<lparr>item = Some label, item_category = Some (category entry),
         item_confidence = Some c, item_bbox = bbox d\<rparr>]"
    if "cls d = Some label" and "map_of (ppeItems this) label = Some entry"
      and "confidence d = Some c" and "1 < c" for label entry c
  proof -
    have "d = \<lparr>cls = Some label, confidence = Some c, bbox = bbox d\<rparr>"
      using that by simp
    then have "processDetection this initial_locals d =
        processDetection this initial_locals \<lparr>cls = Some label, confidence = Some c, bbox = bbox d\<rparr>"
      by simp
    with processDetection_known [OF that(2), of c "bbox d"] that(4)
    show ?thesis by simp
  qed
  from analyzeCompliance_split [of this xs d ys]
  obtain r rx ry where
    run: "analyzeCompliance this (map Some (xs @ [d] @ ys)) = Inr r"
      "analyzeCompliance this (map Some xs) = Inr rx"
      "analyzeCompliance this (map Some ys) = Inr ry" and
    items: "detectedItems r =
       detectedItems rx @ loc_detectedItems (processDetection this initial_locals d) @
       detectedItems ry" and
    cats: "set (detectedCategories r) =
       set (detectedCategories rx) \<union>
       set (loc_detectedCategories (processDetection this initial_locals d)) \<union>
       set (detectedCategories ry)" and
    pers: "personDetected r =
       (personDetected rx \<or> loc_personDetected (processDetection this initial_locals d) \<or>
        personDetected ry)"
    by blast
  have a: "(confidence d = None \<or> (\<exists>c. confidence d = Some c \<and> c < 0) \<or>
        (cls d = None \<and> js_get (ppeItems this) ''undefined'' = Undefined)) \<longrightarrow>
         detectedItems r = detectedItems rx @ detectedItems ry \<and>
         set (detectedCategories r) =
           set (detectedCategories rx) \<union> set (detectedCategories ry)"
    using skipped items cats by simp
  have b: "personDetected r =
      (personDetected rx \<or> cls d = Some ''person'' \<or> personDetected ry)"
    using flag pers by simp
  have c: "\<forall>label entry c.
         cls d = Some label \<and> map_of (ppeItems this) label = Some entry \<and>
         confidence d = Some c \<and> 1 < c \<longrightarrow>
         detectedItems r =
           detectedItems rx @
           [\<lparr>item = Some label, item_category = Some (category entry),
              item_confidence = Some c, item_bbox = bbox d\<rparr>] @
           detectedItems ry"
    using admitted items by simp
  have "\<exists>r rx ry.
      analyzeCompliance this (map Some (xs @ [d] @ ys)) = Inr r \<and>
      analyzeCompliance this (map Some xs) = Inr rx \<and>
      analyzeCompliance this (map Some ys) = Inr ry \<and>
      ((confidence d = None \<or> (\<exists>c. confidence d = Some c \<and> c < 0) \<or>
        (cls d = None \<and> js_get (ppeItems this) ''undefined'' = Undefined)) \<longrightarrow>
         detectedItems r = detectedItems rx @ detectedItems ry \<and>
         set (detectedCategories r) =
           set (detectedCategories rx) \<union> set (detectedCategories ry)) \<and>
      personDetected r =
        (personDetected rx \<or> cls d = Some ''person'' \<or> personDetected ry) \<and>
      (\<forall>label entry c.
         cls d = Some label \<and> map_of (ppeItems this) label = Some entry \<and>
         confidence d = Some c \<and> 1 < c \<longrightarrow>
         detectedItems r =
           detectedItems rx @
           [\<lparr>item = Some label, item_category = Some (category entry),
              item_confidence = Some c, item_bbox = bbox d\<rparr>] @
           detectedItems ry)"
    using run a b c by (intro exI conjI)
  with analyzeCompliance_null [of this xs rest] show ?thesis by (rule conjI [rotated])
qed

text \<open>
  The theorem at a helmet without confidence, at a detection without label, at gloves
  of confidence 1.5, at a person without confidence and a person of confidence -1 (the
  flag is set, nothing is admitted), and at an array holding \<^verbatim>\<open>null\<close>.
\<close>

theorem malformed_detections_return_a_report_witness:
  "(case analyzeCompliance PPEAnalysisService
      [Some \<lparr>cls = Some ''helmet'', confidence = None, bbox = [120, 60, 80, 60]\<rparr>]
    of Inl e \<Rightarrow> False
     | Inr r \<Rightarrow> detectedItems r = [] \<and> set (detectedCategories r) = {} \<and> \<not> personDetected r) \<and>
   (case analyzeCompliance PPEAnalysisService
      [Some \<lparr>cls = None, confidence = Some (9 / 10), bbox = [120, 60, 80, 60]\<rparr>]
    of Inl e \<Rightarrow> False
     | Inr r \<Rightarrow> detectedItems r = [] \<and> set (detectedCategories r) = {} \<and> \<not> personDetected r) \<and>
   (case analyzeCompliance PPEAnalysisService
      [Some \<lparr>cls = Some ''gloves'', confidence = Some (3 / 2), bbox = [80, 350, 60, 40]\<rparr>]
    of Inl e \<Rightarrow> False
     | Inr r \<Rightarrow>
         detectedItems r =
           [\<lparr>item = Some ''gloves'', item_category = Some hand_protection,
              item_confidence = Some (3 / 2), item_bbox = [80, 350, 60, 40]\<rparr>] \<and>
         \<not> personDetected r) \<and>
   (case analyzeCompliance PPEAnalysisService
      [Some \<lparr>cls = Some ''person'', confidence = None, bbox = [100, 50, 200, 400]\<rparr>]
    of Inl e \<Rightarrow> False
     | Inr r \<Rightarrow> detectedItems r = [] \<and> set (detectedCategories r) = {} \<and> personDetected r) \<and>
   (case analyzeCompliance PPEAnalysisService
      [Some \<lparr>cls = Some ''person'', confidence = Some (- 1), bbox = [100, 50, 200, 400]\<rparr>]
    of Inl e \<Rightarrow> False
     | Inr r \<Rightarrow> detectedItems r = [] \<and> set (detectedCategories r) = {} \<and> personDetected r) \<and>
   analyzeCompliance PPEAnalysisService [None] = Inl TypeError"
proof -
  let ?a = "\<lparr>cls = Some ''helmet'', confidence = None, bbox = [120, 60, 80, 60]\<rparr>"
  let ?b = "\<lparr>cls = None, confidence = Some (9 / 10), bbox = [120, 60, 80, 60]\<rparr>"
  let ?c = "\<lparr>cls = Some ''gloves'', confidence = Some (3 / 2), bbox = [80, 350, 60, 40]\<rparr>"
  let ?p = "\<lparr>cls = Some ''person'', confidence = None, bbox = [100, 50, 200, 400]\<rparr>"
  let ?q = "\<lparr>cls = Some ''person'', confidence = Some (- 1), bbox = [100, 50, 200, 400]\<rparr>"
  have none: "detectedItems rx = [] \<and> detectedCategories rx = [] \<and> \<not> personDetected rx"
    if "analyzeCompliance PPEAnalysisService (map Some []) = Inr rx" for rx
    using that by (auto simp add: analyzeCompliance_empty)
  have no_key: "js_get (ppeItems PPEAnalysisService) ''undefined'' = Undefined"
    by (simp add: PPEAnalysisService_def js_get_def Object_prototype_def)
  have gloves: "map_of (ppeItems PPEAnalysisService) ''gloves'' =
      Some \<lparr>required = True, category = hand_protection,
             aliases = [''safety gloves'', ''work gloves'']\<rparr>"
    by (simp add: PPEAnalysisService_def)
  have skipped: "case analyzeCompliance PPEAnalysisService [Some d] of Inl e \<Rightarrow> False
     | Inr r \<Rightarrow> detectedItems r = [] \<and> set (detectedCategories r) = {} \<and>
         personDetected r = (cls d = Some ''person'')"
    if cond: "confidence d = None \<or> (\<exists>c. confidence d = Some c \<and> c < 0) \<or>
        (cls d = None \<and> js_get (ppeItems PPEAnalysisService) ''undefined'' = Undefined)"
    for d
  proof -
    from malformed_detections_return_a_report [of PPEAnalysisService "[]" d "[]" "[]"]
    obtain r rx ry where
      run: "analyzeCompliance PPEAnalysisService (map Some ([] @ [d] @ [])) = Inr r" and
      rx: "analyzeCompliance PPEAnalysisService (map Some []) = Inr rx" and
      ry: "analyzeCompliance PPEAnalysisService (map Some []) = Inr ry" and
      imp: "(confidence d = None \<or> (\<exists>c. confidence d = Some c \<and> c < 0) \<or>
          (cls d = None \<and> js_get (ppeItems PPEAnalysisService) ''undefined'' = Undefined)) \<longrightarrow>
           detectedItems r = detectedItems rx @ detectedItems ry \<and>
           set (detectedCategories r) =
             set (detectedCategories rx) \<union> set (detectedCategories ry)" and
      flag: "personDetected r =
         (personDetected rx \<or> cls d = Some ''person'' \<or> personDetected ry)"
      by (elim conjE exE) (rule that; assumption)
    from imp cond have "detectedItems r = detectedItems rx @ detectedItems ry \<and>
           set (detectedCategories r) =
             set (detectedCategories rx) \<union> set (detectedCategories ry)"
      by (rule mp)
    with none [OF rx] none [OF ry] flag
    have "detectedItems r = [] \<and> set (detectedCategories r) = {} \<and>
         personDetected r = (cls d = Some ''person'')"
      by simp
    moreover from run have "analyzeCompliance PPEAnalysisService [Some d] = Inr r"
      by simp
    ultimately show ?thesis by simp
  qed
  have first: "case analyzeCompliance PPEAnalysisService [Some ?a] of Inl e \<Rightarrow> False
     | Inr r \<Rightarrow> detectedItems r = [] \<and> set (detectedCategories r) = {} \<and> \<not> personDetected r"
    using skipped [of ?a] by (simp split: sum.splits)
  have second: "case analyzeCompliance PPEAnalysisService [Some ?b] of Inl e \<Rightarrow> False
     | Inr r \<Rightarrow> detectedItems r = [] \<and> set (detectedCategories r) = {} \<and> \<not> personDetected r"
    using skipped [of ?b] no_key by (simp split: sum.splits)
  have fourth: "case analyzeCompliance PPEAnalysisService [Some ?p] of Inl e \<Rightarrow> False
     | Inr r \<Rightarrow> detectedItems r = [] \<and> set (detectedCategories r) = {} \<and> personDetected r"
    using skipped [of ?p] by (simp split: sum.splits)
  have fifth: "case analyzeCompliance PPEAnalysisService [Some ?q] of Inl e \<Rightarrow> False
     | Inr r \<Rightarrow> detectedItems r = [] \<and> set (detectedCategories r) = {} \<and> personDetected r"
    using skipped [of ?q] by (simp split: sum.splits)
  from malformed_detections_return_a_report [of PPEAnalysisService "[]" ?c "[]" "[]"]
  obtain r rx ry where
    "analyzeCompliance PPEAnalysisService (map Some ([] @ [?c] @ [])) = Inr r"
    "analyzeCompliance PPEAnalysisService (map Some []) = Inr rx"
    "analyzeCompliance PPEAnalysisService (map Some []) = Inr ry"
    "personDetected r =
       (personDetected rx \<or> cls ?c = Some ''person'' \<or> personDetected ry)"
    "\<forall>label entry c.
         cls ?c = Some label \<and> map_of (ppeItems PPEAnalysisService) label = Some entry \<and>
         confidence ?c = Some c \<and> 1 < c \<longrightarrow>
         detectedItems r =
           detectedItems rx @
           [\<lparr>item = Some label, item_category = Some (category entry),
              item_confidence = Some c, item_bbox = bbox ?c\<rparr>] @
           detectedItems ry"
    by (elim conjE exE) (rule that; assumption)
  then have third: "analyzeCompliance PPEAnalysisService [Some ?c] = Inr r \<and>
      detectedItems r =
        [\<lparr>item = Some ''gloves'', item_category = Some hand_protection,
           item_confidence = Some (3 / 2), item_bbox = [80, 350, 60, 40]\<rparr>] \<and>
      \<not> personDetected r"
    using none [of rx] none [of ry] gloves by simp
  from malformed_detections_return_a_report [of PPEAnalysisService "[]" ?a "[]" "[]"]
  have sixth: "analyzeCompliance PPEAnalysisService [None] = Inl TypeError"
    by simp
  show ?thesis using first second third fourth fifth sixth by simp
qed

end
